theory Spec2Isabelle
  imports Complex_Main
begin

section \<open>Outcomes of a Python call\<close>

text \<open>
  A call either returns a value or raises. The first three constructors are the Python
  exceptions that the modelled code can raise by itself, \<open>Raised\<close> is an exception
  raised by a user-supplied callback (a hook or a metric calculation), named by its class.
  The last five are the error kinds of the specification's taxonomy; no statement of the
  source constructs any of them.

  Probabilities and metric values are Python floats in the source. They are modelled as
  real numbers: comparison and multiplication are exact, rounding and NaN are outside
  the model.
\<close>

datatype error =
    AttributeError
  | TypeError
  | KeyError
  | Raised string
  | DimensionMismatch
  | UninitializedVocabulary
  | UninitializedContext
  | InvalidSelection
  | MetricComputationError string nat

section \<open>heapq.nlargest\<close>

text \<open>
  \<open>heapq.nlargest(n, iterable, key)\<close> is the standard library's; it is documented as
  equivalent to \<open>sorted(iterable, key=key, reverse=True)[:n]\<close>, and Python's sort is
  stable under \<open>reverse=True\<close>: elements with equal keys keep the order of the iterable.
  For an iterable without a length (a \<open>zip\<close>) and \<open>n \<le> 0\<close> it returns the empty list.
  \<open>sorted_reverse\<close> is the stable descending sort, by insertion from the right.
\<close>

fun insert_desc :: "('a \<Rightarrow> 'k::linorder) \<Rightarrow> 'a \<Rightarrow> 'a list \<Rightarrow> 'a list" where
  "insert_desc key x [] = [x]"
| "insert_desc key x (y # ys) =
     (if key y \<le> key x then x # y # ys else y # insert_desc key x ys)"

fun sorted_reverse :: "('a \<Rightarrow> 'k::linorder) \<Rightarrow> 'a list \<Rightarrow> 'a list" where
  "sorted_reverse key [] = []"
| "sorted_reverse key (x # xs) = insert_desc key x (sorted_reverse key xs)"

definition nlargest :: "int \<Rightarrow> ('a \<Rightarrow> 'k::linorder) \<Rightarrow> 'a list \<Rightarrow> 'a list" where
  "nlargest n key xs = take (nat n) (sorted_reverse key xs)"

section \<open>SoftmaxFormatter (formatters/softmax_formatter.py)\<close>

text \<open>The dataclass \<open>Continuation\<close> of softmax_formatter.py.\<close>

record softmax_continuation =
  is_long :: bool
  content :: string
  probs :: "real list"

text \<open>
  The formatter object. \<open>formatter_name\<close> (the attribute \<open>name\<close>) and \<open>changed\<close>
  belong to the base class \<open>Formatter\<close>; \<open>priv_possibilities\<close> is the attribute
  \<open>_possibilities\<close>. The attribute \<open>endpoint_callback\<close> is a callable that none of the
  modelled methods calls.
\<close>

record softmax_formatter =
  formatter_name :: string
  changed :: bool
  n_largest_tokens_to_return :: int
  priv_possibilities :: "softmax_continuation list"
  endpoint_url :: string
  long_tokens :: bool

text \<open>\<open>FormattedContext(name, type, content=dict(possibilities, address))\<close>.\<close>

record formatted_context =
  fc_name :: string
  fc_type :: string
  fc_possibilities :: "softmax_continuation list"
  fc_address :: string

text \<open>The property \<open>possibilities\<close> and its setter.\<close>

definition possibilities :: "softmax_formatter \<Rightarrow> softmax_continuation list" where
  "possibilities self = priv_possibilities self"

definition set_possibilities ::
  "softmax_continuation list \<Rightarrow> softmax_formatter \<Rightarrow> softmax_formatter" where
  "set_possibilities v self = (self\<lparr>changed := True\<rparr>)\<lparr>priv_possibilities := v\<rparr>"

text \<open>
  \<open>assign_words_to_probs\<close>: \<open>zip\<close> stops at the shorter argument, the key is the first
  component of the pair. No statement of the method raises, so the outcome is always a
  value.
\<close>

definition assign_words_to_probs ::
  "softmax_formatter \<Rightarrow> real list \<Rightarrow> string list \<Rightarrow> error + softmax_continuation list" where
  "assign_words_to_probs self ps word_vocab =
     (let n_largest = nlargest (n_largest_tokens_to_return self) fst (zip ps word_vocab)
      in Inr (map (\<lambda>x. \<lparr>is_long = long_tokens self, content = snd x, probs = [fst x * 100]\<rparr>)
                  n_largest))"

text \<open>\<open>format\<close>: the returned description and the formatter after the call.\<close>

definition format :: "softmax_formatter \<Rightarrow> formatted_context \<times> softmax_formatter" where
  "format self =
     (let self1 = self\<lparr>changed := False\<rparr>
      in (\<lparr>fc_name = formatter_name self1, fc_type = ''softmax'',
           fc_possibilities = possibilities self1, fc_address = endpoint_url self1\<rparr>,
          self1))"

section \<open>NextTokenPredictionComponent (next_token_prediction_component.py)\<close>

text \<open>The dataclass \<open>Continuation\<close> of next_token_prediction_component.py.\<close>

record continuation =
  token :: string
  prob :: real

text \<open>
  The component object. \<open>word_vocab\<close> is \<open>None\<close> until \<open>initialize_vocab\<close> sets it;
  \<open>priv_context\<close> is the attribute \<open>_context\<close>, which does not exist (\<open>None\<close> here)
  until \<open>initialize_context\<close> assigns it. A subclass adds fields through the record's
  extension.
\<close>

record next_token_prediction_component =
  ntp_n_largest_tokens_to_return :: int
  word_vocab :: "string list option"
  priv_context :: "string option"

text \<open>
  The abstract methods that a subclass supplies. Each receives the object and returns
  its outcome together with the object as it leaves it. The second argument of
  \<open>append_to_context\<close> is \<open>data.get('token')\<close>, which is \<open>None\<close> when the key is absent.
\<close>

record 'z hooks =
  append_to_context ::
    "'z next_token_prediction_component_scheme \<Rightarrow> string \<Rightarrow> string option
      \<Rightarrow> (error + string) \<times> 'z next_token_prediction_component_scheme"
  get_next_token_predictions ::
    "'z next_token_prediction_component_scheme \<Rightarrow> string
      \<Rightarrow> (error + continuation list) \<times> 'z next_token_prediction_component_scheme"

text \<open>
  The JSON object built by \<open>jsonify(dict(result, context, continuations))\<close>; the key
  \<open>context\<close> is the field \<open>resp_context\<close>.
\<close>

record response =
  result :: string
  resp_context :: string
  continuations :: "continuation list"

definition initialize_context ::
  "string \<Rightarrow> 'z next_token_prediction_component_scheme
    \<Rightarrow> 'z next_token_prediction_component_scheme" where
  "initialize_context c self = self\<lparr>priv_context := Some c\<rparr>"

definition format_context :: "string \<Rightarrow> string" where
  "format_context c = c"

text \<open>
  \<open>create_continuations\<close>: \<open>zip(probs, None)\<close> raises TypeError; otherwise as in the
  formatter.
\<close>

definition create_continuations ::
  "'z next_token_prediction_component_scheme \<Rightarrow> real list \<Rightarrow> error + continuation list" where
  "create_continuations self ps =
     (case word_vocab self of
        None \<Rightarrow> Inl TypeError
      | Some vocab \<Rightarrow>
          (let n_largest = nlargest (ntp_n_largest_tokens_to_return self) fst (zip ps vocab)
           in Inr (map (\<lambda>x. \<lparr>token = snd x, prob = fst x * 100\<rparr>) n_largest)))"

text \<open>
  \<open>fetch\<close>: the arguments of \<open>dict\<close> are evaluated in order; reading \<open>self._context\<close>
  raises AttributeError when the attribute does not exist.
\<close>

definition fetch ::
  "'z hooks \<Rightarrow> 'z next_token_prediction_component_scheme
    \<Rightarrow> (error + response) \<times> 'z next_token_prediction_component_scheme" where
  "fetch h self =
     (case priv_context self of
        None \<Rightarrow> (Inl AttributeError, self)
      | Some c \<Rightarrow>
          (let formatted = format_context c in
           case get_next_token_predictions h self c of
             (Inl e, self1) \<Rightarrow> (Inl e, self1)
           | (Inr conts, self1) \<Rightarrow>
               (Inr \<lparr>result = ''success'', resp_context = formatted, continuations = conts\<rparr>,
                self1)))"


section \<open>MetricsMixin (components/mixins/metrics_mixin.py)\<close>

text \<open>
  The dataclasses \<open>MetricDescription\<close>, \<open>GeneratedTextMetric\<close> and \<open>ProbsMetric\<close>. The
  attribute \<open>format\<close> is the field \<open>display_format\<close>. A metric calculation is a callable
  of the user, which returns a number or raises; \<open>'t\<close> is the type of the tensors.
\<close>

record metric_description =
  display_format :: string
  scalable :: bool

record generated_text_metric = metric_description +
  gt_metric_calculation :: "string \<Rightarrow> string \<Rightarrow> error + real"

record 't probs_metric = metric_description +
  pr_metric_calculation :: "'t \<Rightarrow> 't \<Rightarrow> error + real"

text \<open>
  The attributes of the mixin that the computation reads. A Python dict keeps its keys
  in insertion order and is an association list here; \<open>d[k]\<close> raises KeyError for a
  missing key. The value of \<open>priv_select_metrics_elements\<close> at a name is the attribute
  \<open>selected\<close> of its checkbox.
\<close>

record 't metrics_mixin =
  priv_ordering :: "string list"
  priv_select_metrics_elements :: "(string \<times> bool) list"
  priv_metrics_on_generated_text :: "(string \<times> generated_text_metric) list"
  priv_metrics_on_probs :: "(string \<times> 't probs_metric) list"

definition create_ordering :: "(string \<times> 'a) list \<Rightarrow> (string \<times> 'b) list \<Rightarrow> string list" where
  "create_ordering metrics_on_generated_text metrics_on_probs =
     map fst metrics_on_generated_text @ map fst metrics_on_probs"

text \<open>
  \<open>_prepare_metrics_selection_frontend\<close>: one checkbox per name of the ordering,
  selected at the start.
\<close>

definition prepare_metrics_selection_frontend :: "string list \<Rightarrow> (string \<times> bool) list" where
  "prepare_metrics_selection_frontend ordering_list = map (\<lambda>key. (key, True)) ordering_list"

text \<open>The part of \<open>__init__\<close> that sets the four attributes above.\<close>

definition init_metrics_mixin ::
  "(string \<times> generated_text_metric) list \<Rightarrow> (string \<times> 't probs_metric) list
    \<Rightarrow> 't metrics_mixin" where
  "init_metrics_mixin metrics_on_generated_text metrics_on_probs =
     (let ordering_list = create_ordering metrics_on_generated_text metrics_on_probs in
      \<lparr>priv_ordering = ordering_list,
       priv_select_metrics_elements = prepare_metrics_selection_frontend ordering_list,
       priv_metrics_on_generated_text = metrics_on_generated_text,
       priv_metrics_on_probs = metrics_on_probs\<rparr>)"

text \<open>\<open>PieceInfo\<close> of the bar chart element.\<close>

record piece_info =
  pieceTitle :: string
  barHeights :: "real list"
  barAnnotations :: "string list"
  barNames :: "string list"

text \<open>
  Modelled from the spec: \<open>BarChartElement\<close> and its method \<open>set_piece_infos\<close> are in
  visuallm/elements/barchart_element.py, which is not among the sources. An element holds
  a payload and a dirty flag, and a setter stores the payload and marks the element dirty.
\<close>

record bar_chart_element =
  piece_infos :: "piece_info list"
  bc_changed :: bool

definition set_piece_infos :: "piece_info list \<Rightarrow> bar_chart_element \<Rightarrow> bar_chart_element" where
  "set_piece_infos pis element = element\<lparr>piece_infos := pis, bc_changed := True\<rparr>"

text \<open>
  \<open>str.format\<close> is Python's; the formatting of a number by a format string is a parameter
  \<open>sf\<close> of the model, which returns the text or raises.

  \<open>bar_of\<close> is lines 162 to 166: the height and the annotation of one bar from the
  description and the computed \<open>result\<close>.
\<close>

type_synonym str_format = "string \<Rightarrow> real \<Rightarrow> error + string"

definition bar_of :: "str_format \<Rightarrow> 'm metric_description_scheme \<Rightarrow> real \<Rightarrow> error + real \<times> string" where
  "bar_of sf metric_description res =
     (let height = (if scalable metric_description then min (res * 100) 100 else 100) in
      case sf (display_format metric_description) res of
        Inl e \<Rightarrow> Inl e
      | Inr annotation \<Rightarrow> Inr (height, annotation))"

text \<open>
  One pass of the inner loop (lines 147 to 166) for the metric \<open>name\<close>: \<open>Inr None\<close> when
  the checkbox is not selected (\<open>continue\<close>), the bar otherwise.
\<close>

definition metric_bar ::
  "str_format \<Rightarrow> 't metrics_mixin \<Rightarrow> string \<Rightarrow> string \<Rightarrow> 't \<Rightarrow> 't \<Rightarrow> string
    \<Rightarrow> error + (real \<times> string) option" where
  "metric_bar sf self generated_text label_text labels_encoded generated_encoded name =
     (case map_of (priv_select_metrics_elements self) name of
        None \<Rightarrow> Inl KeyError
      | Some selected \<Rightarrow>
          if \<not> selected then Inr None
          else
            (case
               (case map_of (priv_metrics_on_generated_text self) name of
                  Some metric_description \<Rightarrow>
                    (case gt_metric_calculation metric_description generated_text label_text of
                       Inl e \<Rightarrow> Inl e
                     | Inr res \<Rightarrow> bar_of sf metric_description res)
                | None \<Rightarrow>
                    (case map_of (priv_metrics_on_probs self) name of
                       None \<Rightarrow> Inl KeyError
                     | Some metric_description \<Rightarrow>
                         (case pr_metric_calculation metric_description labels_encoded
                                 generated_encoded of
                            Inl e \<Rightarrow> Inl e
                          | Inr res \<Rightarrow> bar_of sf metric_description res)))
             of Inl e \<Rightarrow> Inl e
              | Inr bar \<Rightarrow> Inr (Some bar)))"

text \<open>
  The inner loop over the ordering: the three lists \<open>bar_names\<close>, \<open>bar_annotations\<close>,
  \<open>bar_heights\<close>, or the first exception.
\<close>

fun metric_bars ::
  "str_format \<Rightarrow> 't metrics_mixin \<Rightarrow> string \<Rightarrow> string \<Rightarrow> 't \<Rightarrow> 't \<Rightarrow> string list
    \<Rightarrow> error + string list \<times> string list \<times> real list" where
  "metric_bars sf self generated_text label_text labels_encoded generated_encoded [] =
     Inr ([], [], [])"
| "metric_bars sf self generated_text label_text labels_encoded generated_encoded (name # names) =
     (case metric_bar sf self generated_text label_text labels_encoded generated_encoded name of
        Inl e \<Rightarrow> Inl e
      | Inr bar \<Rightarrow>
          (case metric_bars sf self generated_text label_text labels_encoded generated_encoded
                  names of
             Inl e \<Rightarrow> Inl e
           | Inr (bar_names, bar_annotations, bar_heights) \<Rightarrow>
               (case bar of
                  None \<Rightarrow> Inr (bar_names, bar_annotations, bar_heights)
                | Some (height, annotation) \<Rightarrow>
                    Inr (name # bar_names, annotation # bar_annotations,
                         height # bar_heights))))"

text \<open>The outer loop over the zipped candidates: the list \<open>piece_infos\<close>.\<close>

fun compute_piece_infos ::
  "str_format \<Rightarrow> 't metrics_mixin \<Rightarrow> string \<Rightarrow> (string \<times> 't \<times> 't) list
    \<Rightarrow> error + piece_info list" where
  "compute_piece_infos sf self label_text [] = Inr []"
| "compute_piece_infos sf self label_text
     ((generated_text, labels_encoded, generated_encoded) # rest) =
     (case metric_bars sf self generated_text label_text labels_encoded generated_encoded
             (priv_ordering self) of
        Inl e \<Rightarrow> Inl e
      | Inr (bar_names, bar_annotations, bar_heights) \<Rightarrow>
          (case compute_piece_infos sf self label_text rest of
             Inl e \<Rightarrow> Inl e
           | Inr pis \<Rightarrow>
               Inr (\<lparr>pieceTitle = generated_text, barHeights = bar_heights,
                     barAnnotations = bar_annotations, barNames = bar_names\<rparr> # pis)))"

text \<open>
  \<open>_compute_n_display_metrics_for_element\<close>: the element is written once, after the
  loops; an exception leaves it as it was.
\<close>

definition compute_n_display_metrics_for_element ::
  "str_format \<Rightarrow> 't metrics_mixin \<Rightarrow> string list \<Rightarrow> string \<Rightarrow> 't list \<Rightarrow> 't list
    \<Rightarrow> bar_chart_element \<Rightarrow> (error + unit) \<times> bar_chart_element" where
  "compute_n_display_metrics_for_element sf self generated_text_list label_text
       probs_encoded_list generated_encoded_list element =
     (case compute_piece_infos sf self label_text
             (zip generated_text_list (zip probs_encoded_list generated_encoded_list)) of
        Inl e \<Rightarrow> (Inl e, element)
      | Inr pis \<Rightarrow> (Inr (), set_piece_infos pis element))"

section \<open>An example subclass\<close>

text \<open>
  A concrete subclass for the examples below: \<open>append_to_context\<close> joins context and token
  with a space (and raises TypeError on \<open>None\<close>, as \<open>str + None\<close> does), and
  \<open>get_next_token_predictions\<close> passes a fixed probability vector to
  \<open>create_continuations\<close>. Neither writes the object.
\<close>

definition demo_hooks :: "unit hooks" where
  "demo_hooks =
     \<lparr>append_to_context =
        (\<lambda>self c post_token.
           case post_token of
             None \<Rightarrow> (Inl TypeError, self)
           | Some t \<Rightarrow> (Inr (c @ '' '' @ t), self)),
      get_next_token_predictions =
        (\<lambda>self c. (create_continuations self [1 / 10, 7 / 10, 1 / 5], self))\<rparr>"

definition demo_component :: "string option \<Rightarrow> next_token_prediction_component" where
  "demo_component c =
     \<lparr>ntp_n_largest_tokens_to_return = 2,
      word_vocab = Some [''a'', ''b'', ''c''],
      priv_context = c\<rparr>"

section \<open>Ranking of vocabulary indices\<close>

text \<open>
  The order in which the specification ranks the entries of a probability vector:
  index \<open>i\<close> comes before index \<open>j\<close> when its probability is larger, or equal with
  \<open>i\<close> earlier in the vocabulary.
\<close>

definition ranks_before :: "real list \<Rightarrow> nat \<Rightarrow> nat \<Rightarrow> bool" where
  "ranks_before ps i j = (ps ! j < ps ! i \<or> (ps ! i = ps ! j \<and> i < j))"

section \<open>An example mixin\<close>

text \<open>
  An example of formatting for the examples below: the format string \<open>{:.2f}\<close> prints
  a number with two decimals, rounded half to even; the example knows no other format
  string.
\<close>

fun decimal :: "nat \<Rightarrow> string" where
  "decimal n =
     (if n < 10 then [''0123456789'' ! n] else decimal (n div 10) @ [''0123456789'' ! (n mod 10)])"

definition round_half_even :: "real \<Rightarrow> int" where
  "round_half_even x =
     (let f = \<lfloor>x\<rfloor>; d = x - of_int f in
      if d < 1 / 2 then f else if 1 / 2 < d then f + 1 else if even f then f else f + 1)"

definition format_2f :: "real \<Rightarrow> string" where
  "format_2f x =
     (let q = nat (round_half_even (\<bar>x\<bar> * 100)) in
      (if x < 0 then ''-'' else '''') @ decimal (q div 100) @ ''.''
        @ decimal (q mod 100 div 10) @ decimal (q mod 10))"

definition demo_format :: str_format where
  "demo_format fmt x = (if fmt = ''{:.2f}'' then Inr (format_2f x) else Inl (Raised ''ValueError''))"

text \<open>
  A mixin with the scalable generated-text metric \<open>bleu\<close>, whose calculation raises on
  the candidate \<open>bad\<close> and returns 0.5 otherwise, and the non-scalable probability
  metric \<open>nll\<close>, which returns 0.37; tensors are natural numbers here. The element starts
  empty and clean.
\<close>

definition demo_metrics_on_generated_text :: "(string \<times> generated_text_metric) list" where
  "demo_metrics_on_generated_text =
     [(''bleu'',
       \<lparr>display_format = ''{:.2f}'', scalable = True,
        gt_metric_calculation =
          (\<lambda>generated target.
             if generated = ''bad'' then Inl (Raised ''ValueError'') else Inr (1 / 2))\<rparr>)]"

definition demo_metrics_on_probs :: "(string \<times> nat probs_metric) list" where
  "demo_metrics_on_probs =
     [(''nll'',
       \<lparr>display_format = ''{:.2f}'', scalable = False,
        pr_metric_calculation = (\<lambda>ps ids. Inr (37 / 100))\<rparr>)]"

definition demo_mixin :: "nat metrics_mixin" where
  "demo_mixin = init_metrics_mixin demo_metrics_on_generated_text demo_metrics_on_probs"

definition demo_element :: bar_chart_element where
  "demo_element = \<lparr>piece_infos = [], bc_changed = False\<rparr>"

section \<open>The formatter: lengths, the dirty flag\<close>

lemma zip_take_min:
  "zip (take (min (length ps) (length vs)) ps) (take (min (length ps) (length vs)) vs) = zip ps vs"
proof -
  have "zip (take (min (length ps) (length vs)) ps) (take (min (length ps) (length vs)) vs)
        = take (min (length ps) (length vs)) (zip ps vs)"
    by (simp add: take_zip)
  also have "\<dots> = zip ps vs" by simp
  finally show ?thesis .
qed

text \<open>
  C2, as stated: probabilities and vocabulary of different lengths make
  \<open>assign_words_to_probs\<close> fail with DimensionMismatch. The method has no length check:
  with one probability and two words it returns the continuation of the first word.
\<close>

theorem assign_words_to_probs_mismatch_counterexample:
  "length [1 / 2 :: real] \<noteq> length [''a'', ''b''] \<and>
   assign_words_to_probs
     \<lparr>formatter_name = ''f'', changed = False, n_largest_tokens_to_return = 2,
      priv_possibilities = [], endpoint_url = ''/u'', long_tokens = False\<rparr>
     [1 / 2] [''a'', ''b'']
   = Inr [\<lparr>is_long = False, content = ''a'', probs = [50]\<rparr>]"
  by (simp add: assign_words_to_probs_def nlargest_def Let_def)

text \<open>
  C2, amended: for all probabilities and vocabularies, also of different lengths,
  \<open>assign_words_to_probs\<close> raises nothing; it returns what it returns for the first
  \<open>min (len p) (len v)\<close> entries of both, the entries beyond the shorter list being
  ignored.
\<close>

theorem assign_words_to_probs_truncates:
  "assign_words_to_probs self ps vs =
     assign_words_to_probs self (take (min (length ps) (length vs)) ps)
                                (take (min (length ps) (length vs)) vs)
   \<and> (\<exists>r. assign_words_to_probs self ps vs = Inr r)"
  by (simp add: assign_words_to_probs_def zip_take_min Let_def)

text \<open>
  C3, as stated: \<open>format\<close> leaves the dirty flag as it was. The first statement of
  \<open>format\<close> sets \<open>changed\<close> to False: a dirty formatter is clean after the call.
\<close>

theorem format_clears_changed_counterexample:
  "changed (snd (format
     \<lparr>formatter_name = ''f'', changed = True, n_largest_tokens_to_return = 2,
      priv_possibilities = [], endpoint_url = ''/u'', long_tokens = False\<rparr>))
   \<noteq> changed
     \<lparr>formatter_name = ''f'', changed = True, n_largest_tokens_to_return = 2,
      priv_possibilities = [], endpoint_url = ''/u'', long_tokens = False\<rparr>"
  by (simp add: format_def Let_def)

text \<open>
  C3, amended: \<open>format\<close> itself clears the dirty flag. After the call \<open>changed\<close> is
  False whatever it was before, nothing else of the formatter is modified, and the
  description carries the current possibilities.
\<close>

theorem format_clears_changed:
  "changed (snd (format self)) = False
   \<and> snd (format self) = self\<lparr>changed := False\<rparr>
   \<and> fc_possibilities (fst (format self)) = possibilities self"
  by (simp add: format_def possibilities_def Let_def)

text \<open>
  C4, as stated: the setter marks the element dirty only if the new payload differs from
  the current one. The setter does not compare: assigning the empty list to a clean
  formatter whose possibilities are the empty list marks it dirty.
\<close>

theorem set_possibilities_equal_value_counterexample:
  "[] = possibilities
     \<lparr>formatter_name = ''f'', changed = False, n_largest_tokens_to_return = 2,
      priv_possibilities = [], endpoint_url = ''/u'', long_tokens = False\<rparr>
   \<and> changed (set_possibilities []
     \<lparr>formatter_name = ''f'', changed = False, n_largest_tokens_to_return = 2,
      priv_possibilities = [], endpoint_url = ''/u'', long_tokens = False\<rparr>)"
  by (simp add: set_possibilities_def possibilities_def)

text \<open>
  C4, amended: every assignment through the setter marks the element dirty, whether or
  not the new payload differs from the current one, and stores the payload.
\<close>

theorem set_possibilities_marks_changed:
  "changed (set_possibilities v self) = True
   \<and> possibilities (set_possibilities v self) = v"
  by (simp add: set_possibilities_def possibilities_def)

section \<open>The component: fetch and select\<close>

lemma demo_component_fields:
  "priv_context (demo_component c) = c"
  "word_vocab (demo_component c) = Some [''a'', ''b'', ''c'']"
  "ntp_n_largest_tokens_to_return (demo_component c) = 2"
  "(demo_component c)\<lparr>priv_context := c'\<rparr> = demo_component c'"
  by (simp_all add: demo_component_def)

lemma demo_create: "create_continuations (demo_component c) [1 / 10, 7 / 10, 1 / 5]
  = Inr [\<lparr>token = ''b'', prob = 70\<rparr>, \<lparr>token = ''c'', prob = 20\<rparr>]"
  by (simp add: create_continuations_def demo_component_def nlargest_def Let_def)

text \<open>
  C5: \<open>fetch\<close> does not modify the component, the context in particular, and a second
  \<open>fetch\<close> right after the first returns the same payload. \<open>fetch\<close> itself assigns
  nothing; the hypothesis is that the subclass's \<open>get_next_token_predictions\<close> leaves
  the object as it finds it at the current context.
\<close>

theorem fetch_no_mutation:
  assumes "\<And>c. priv_context self = Some c \<Longrightarrow> snd (get_next_token_predictions h self c) = self"
  shows "snd (fetch h self) = self
         \<and> priv_context (snd (fetch h self)) = priv_context self
         \<and> fst (fetch h (snd (fetch h self))) = fst (fetch h self)"
proof -
  have unchanged: "snd (fetch h self) = self"
  proof (cases "priv_context self")
    case None
    then show ?thesis by (simp add: fetch_def)
  next
    case (Some c)
    with assms[OF Some] show ?thesis
      by (auto simp: fetch_def Let_def split: prod.splits sum.splits)
  qed
  then show ?thesis by simp
qed

text \<open>The example subclass satisfies the hypothesis; its two payloads are the same.\<close>

theorem fetch_no_mutation_witness:
  "snd (fetch demo_hooks (demo_component (Some ''the''))) = demo_component (Some ''the'')
   \<and> fst (fetch demo_hooks (snd (fetch demo_hooks (demo_component (Some ''the'')))))
       = Inr \<lparr>result = ''success'', resp_context = ''the'',
              continuations = [\<lparr>token = ''b'', prob = 70\<rparr>, \<lparr>token = ''c'', prob = 20\<rparr>]\<rparr>"
proof -
  have h: "\<And>c. priv_context (demo_component (Some ''the'')) = Some c \<Longrightarrow>
             snd (get_next_token_predictions demo_hooks (demo_component (Some ''the'')) c)
               = demo_component (Some ''the'')"
    by (simp add: demo_hooks_def)
  have v: "fst (fetch demo_hooks (demo_component (Some ''the'')))
       = Inr \<lparr>result = ''success'', resp_context = ''the'',
              continuations = [\<lparr>token = ''b'', prob = 70\<rparr>, \<lparr>token = ''c'', prob = 20\<rparr>]\<rparr>"
    by (simp add: fetch_def demo_hooks_def demo_create format_context_def demo_component_fields)
  from fetch_no_mutation[of "demo_component (Some ''the'')" demo_hooks, OF h] v
  show ?thesis by simp
qed







section \<open>The N largest continuations\<close>

lemma insert_desc_map:
  "insert_desc key (g x) (map g ys) = map g (insert_desc (\<lambda>i. key (g i)) x ys)"
  by (induction ys) simp_all

lemma sorted_reverse_map:
  "sorted_reverse key (map g js) = map g (sorted_reverse (\<lambda>i. key (g i)) js)"
  by (induction js) (simp_all add: insert_desc_map)

lemma set_insert_desc: "set (insert_desc key x ys) = insert x (set ys)"
  by (induction ys) auto

lemma set_sorted_reverse: "set (sorted_reverse key js) = set js"
  by (induction js) (simp_all add: set_insert_desc)

lemma length_insert_desc: "length (insert_desc key x ys) = Suc (length ys)"
  by (induction ys) simp_all

lemma length_sorted_reverse: "length (sorted_reverse key js) = length js"
  by (induction js) (simp_all add: length_insert_desc)

lemma ranks_before_trans:
  "ranks_before ps i j \<Longrightarrow> ranks_before ps j k \<Longrightarrow> ranks_before ps i k"
  by (auto simp: ranks_before_def)

lemma sorted_wrt_insert_desc:
  assumes "sorted_wrt (ranks_before ps) ys" and "\<forall>y \<in> set ys. x < y"
  shows "sorted_wrt (ranks_before ps) (insert_desc (\<lambda>i. ps ! i) x ys)"
  using assms
proof (induction ys)
  case Nil
  then show ?case by simp
next
  case (Cons y ys)
  show ?case
  proof (cases "ps ! y \<le> ps ! x")
    case True
    have xy: "ranks_before ps x y"
      using True Cons.prems(2) by (auto simp: ranks_before_def)
    have "\<forall>z \<in> set ys. ranks_before ps x z"
      using xy Cons.prems(1) by (auto intro: ranks_before_trans)
    with xy True Cons.prems(1) show ?thesis by simp
  next
    case False
    have yx: "ranks_before ps y x"
      using False by (auto simp: ranks_before_def)
    have "sorted_wrt (ranks_before ps) (insert_desc (\<lambda>i. ps ! i) x ys)"
      using Cons by simp
    with yx False Cons.prems(1) show ?thesis
      by (simp add: set_insert_desc)
  qed
qed

lemma sorted_wrt_sorted_reverse:
  "sorted_wrt (<) js \<Longrightarrow> sorted_wrt (ranks_before ps) (sorted_reverse (\<lambda>i. ps ! i) js)"
proof (induction js)
  case Nil
  then show ?case by simp
next
  case (Cons x js)
  then show ?case
    by (simp add: sorted_wrt_insert_desc set_sorted_reverse)
qed

lemma zip_as_map_nth:
  "length ps = length vs \<Longrightarrow> zip ps vs = map (\<lambda>i. (ps ! i, vs ! i)) [0..<length vs]"
  by (rule nth_equalityI) simp_all

lemma nlargest_zip_indices:
  assumes "length ps = length vs"
  shows "\<exists>idx. nlargest n fst (zip ps vs) = map (\<lambda>i. (ps ! i, vs ! i)) idx
           \<and> length idx = min (nat n) (length vs)
           \<and> (\<forall>i \<in> set idx. i < length vs)
           \<and> sorted_wrt (ranks_before ps) idx
           \<and> (\<forall>j < length vs. j \<notin> set idx \<longrightarrow> (\<forall>i \<in> set idx. ranks_before ps i j))"
proof -
  define full where "full = sorted_reverse (\<lambda>i. ps ! i) [0..<length vs]"
  define idx where "idx = take (nat n) full"
  have set_full: "set full = {0..<length vs}"
    by (simp add: full_def set_sorted_reverse)
  have sorted_full: "sorted_wrt (ranks_before ps) full"
    unfolding full_def by (rule sorted_wrt_sorted_reverse) simp
  have "sorted_reverse fst (zip ps vs) = map (\<lambda>i. (ps ! i, vs ! i)) full"
    by (simp add: zip_as_map_nth[OF assms] sorted_reverse_map full_def)
  then have 1: "nlargest n fst (zip ps vs) = map (\<lambda>i. (ps ! i, vs ! i)) idx"
    by (simp add: nlargest_def idx_def take_map)
  have 2: "length idx = min (nat n) (length vs)"
    by (simp add: idx_def full_def length_sorted_reverse min.commute)
  have sub: "set idx \<subseteq> set full"
    unfolding idx_def by (rule set_take_subset)
  then have 3: "\<forall>i \<in> set idx. i < length vs"
    using set_full by auto
  have split: "full = idx @ drop (nat n) full"
    by (simp add: idx_def)
  have both: "sorted_wrt (ranks_before ps) (idx @ drop (nat n) full)"
    using sorted_full split by simp
  then have 4: "sorted_wrt (ranks_before ps) idx"
    by (simp add: sorted_wrt_append)
  have 5: "\<forall>j < length vs. j \<notin> set idx \<longrightarrow> (\<forall>i \<in> set idx. ranks_before ps i j)"
  proof (intro allI impI ballI)
    fix j i
    assume j: "j < length vs" and nj: "j \<notin> set idx" and i: "i \<in> set idx"
    from j set_full have "j \<in> set (idx @ drop (nat n) full)"
      using split by simp
    with nj have "j \<in> set (drop (nat n) full)" by simp
    with both i show "ranks_before ps i j"
      by (simp add: sorted_wrt_append)
  qed
  from 1 2 3 4 5 show ?thesis by blast
qed

lemma ranks_before_sorted_probs:
  "sorted_wrt (ranks_before ps) idx \<Longrightarrow>
   sorted_wrt (\<lambda>a b. b \<le> a) (map (\<lambda>i. ps ! i * 100) idx)"
  by (simp add: sorted_wrt_map) (erule sorted_wrt_mono_rel[rotated], auto simp: ranks_before_def)

lemma top_n_by_indices:
  assumes "length ps = length vs"
    and "0 \<le> n"
    and "n_largest_tokens_to_return self = n"
    and "ntp_n_largest_tokens_to_return component = n"
    and "word_vocab component = Some vs"
  shows "\<exists>idx.
           assign_words_to_probs self ps vs
             = Inr (map (\<lambda>i. \<lparr>is_long = long_tokens self, content = vs ! i,
                               probs = [ps ! i * 100]\<rparr>) idx)
         \<and> create_continuations component ps
             = Inr (map (\<lambda>i. \<lparr>token = vs ! i, prob = ps ! i * 100\<rparr>) idx)
         \<and> int (length idx) \<le> n
         \<and> length idx = min (nat n) (length vs)
         \<and> (\<forall>i \<in> set idx. i < length vs)
         \<and> sorted_wrt (\<lambda>a b. b \<le> a) (map (\<lambda>i. ps ! i * 100) idx)
         \<and> sorted_wrt (ranks_before ps) idx
         \<and> (\<forall>j < length vs. j \<notin> set idx \<longrightarrow> (\<forall>i \<in> set idx. ranks_before ps i j))"
proof -
  from nlargest_zip_indices[OF assms(1), of n]
  obtain idx where
    nl: "nlargest n fst (zip ps vs) = map (\<lambda>i. (ps ! i, vs ! i)) idx"
    and len: "length idx = min (nat n) (length vs)"
    and bound: "\<forall>i \<in> set idx. i < length vs"
    and sorted: "sorted_wrt (ranks_before ps) idx"
    and top: "\<forall>j < length vs. j \<notin> set idx \<longrightarrow> (\<forall>i \<in> set idx. ranks_before ps i j)"
    by blast
  have a: "assign_words_to_probs self ps vs
             = Inr (map (\<lambda>i. \<lparr>is_long = long_tokens self, content = vs ! i,
                               probs = [ps ! i * 100]\<rparr>) idx)"
    by (simp add: assign_words_to_probs_def assms(3) nl Let_def)
  have c: "create_continuations component ps
             = Inr (map (\<lambda>i. \<lparr>token = vs ! i, prob = ps ! i * 100\<rparr>) idx)"
    by (simp add: create_continuations_def assms(4,5) nl Let_def)
  have l: "int (length idx) \<le> n"
    using len assms(2) by simp
  have d: "sorted_wrt (\<lambda>a b. b \<le> a) (map (\<lambda>i. ps ! i * 100) idx)"
    using sorted by (rule ranks_before_sorted_probs)
  from a c l len bound d sorted top show ?thesis by blast
qed

text \<open>
  C1: for a probability vector and a vocabulary of the same length, and \<open>N \<ge> 0\<close> tokens
  to return, \<open>assign_words_to_probs\<close> and \<open>create_continuations\<close> return the entries of
  a list \<open>idx\<close> of vocabulary indices, each with its word and its probability times 100.
  The list has at most \<open>N\<close> indices (exactly \<open>min N (len v)\<close>), its probabilities
  descend, equal probabilities come in vocabulary order (\<open>ranks_before\<close> along the list),
  and every index left out ranks after every index returned. For the vocabulary
  \<open>a, b, c\<close> with probabilities \<open>0.1, 0.7, 0.2\<close> and \<open>N = 2\<close> the result is \<open>b\<close> with
  70 and \<open>c\<close> with 20.
\<close>

theorem top_n_continuations:
  assumes "length ps = length vs"
    and "0 \<le> n"
    and "n_largest_tokens_to_return self = n"
    and "ntp_n_largest_tokens_to_return component = n"
    and "word_vocab component = Some vs"
  shows "(\<exists>idx.
           assign_words_to_probs self ps vs
             = Inr (map (\<lambda>i. \<lparr>is_long = long_tokens self, content = vs ! i,
                               probs = [ps ! i * 100]\<rparr>) idx)
         \<and> create_continuations component ps
             = Inr (map (\<lambda>i. \<lparr>token = vs ! i, prob = ps ! i * 100\<rparr>) idx)
         \<and> int (length idx) \<le> n
         \<and> length idx = min (nat n) (length vs)
         \<and> (\<forall>i \<in> set idx. i < length vs)
         \<and> sorted_wrt (\<lambda>a b. b \<le> a) (map (\<lambda>i. ps ! i * 100) idx)
         \<and> sorted_wrt (ranks_before ps) idx
         \<and> (\<forall>j < length vs. j \<notin> set idx \<longrightarrow> (\<forall>i \<in> set idx. ranks_before ps i j)))
       \<and> create_continuations
            \<lparr>ntp_n_largest_tokens_to_return = 2, word_vocab = Some [''a'', ''b'', ''c''],
             priv_context = None\<rparr> [0.1, 0.7, 0.2]
          = Inr [\<lparr>token = ''b'', prob = 70.0\<rparr>, \<lparr>token = ''c'', prob = 20.0\<rparr>]
       \<and> assign_words_to_probs
            \<lparr>formatter_name = ''f'', changed = False, n_largest_tokens_to_return = 2,
             priv_possibilities = [], endpoint_url = ''/u'', long_tokens = False\<rparr>
            [0.1, 0.7, 0.2] [''a'', ''b'', ''c'']
          = Inr [\<lparr>is_long = False, content = ''b'', probs = [70.0]\<rparr>,
                 \<lparr>is_long = False, content = ''c'', probs = [20.0]\<rparr>]"
proof -
  have s1: "create_continuations
            \<lparr>ntp_n_largest_tokens_to_return = 2, word_vocab = Some [''a'', ''b'', ''c''],
             priv_context = None\<rparr> [0.1, 0.7, 0.2]
          = Inr [\<lparr>token = ''b'', prob = 70.0\<rparr>, \<lparr>token = ''c'', prob = 20.0\<rparr>]"
    by (simp add: create_continuations_def nlargest_def Let_def)
  have s2: "assign_words_to_probs
            \<lparr>formatter_name = ''f'', changed = False, n_largest_tokens_to_return = 2,
             priv_possibilities = [], endpoint_url = ''/u'', long_tokens = False\<rparr>
            [0.1, 0.7, 0.2] [''a'', ''b'', ''c'']
          = Inr [\<lparr>is_long = False, content = ''b'', probs = [70.0]\<rparr>,
                 \<lparr>is_long = False, content = ''c'', probs = [20.0]\<rparr>]"
    by (simp add: assign_words_to_probs_def nlargest_def Let_def)
  from top_n_by_indices[OF assms] s1 s2 show ?thesis by blast
qed

text \<open>With a tie between \<open>b\<close> and \<open>c\<close>, two continuations in descending order.\<close>

theorem top_n_continuations_witness:
  "length [0.1, 0.7, 0.7 :: real] = length [''a'', ''b'', ''c'']
   \<and> (0::int) \<le> 2
   \<and> (\<exists>r. create_continuations (demo_component None) [0.1, 0.7, 0.7] = Inr r
          \<and> length r = 2
          \<and> sorted_wrt (\<lambda>a b. b \<le> a) (map prob r))"
proof -
  from top_n_continuations[of "[0.1, 0.7, 0.7]" "[''a'', ''b'', ''c'']" 2
          "\<lparr>formatter_name = ''f'', changed = False, n_largest_tokens_to_return = 2,
             priv_possibilities = [], endpoint_url = ''/u'', long_tokens = False\<rparr>"
          "demo_component None"]
  obtain idx where
    c: "create_continuations (demo_component None) [0.1, 0.7, 0.7]
          = Inr (map (\<lambda>i. \<lparr>token = [''a'', ''b'', ''c''] ! i,
                            prob = [0.1, 0.7, 0.7] ! i * 100\<rparr>) idx)"
    and l: "length idx = min (nat 2) (length [''a'', ''b'', ''c''])"
    and s: "sorted_wrt (\<lambda>a b. b \<le> a) (map (\<lambda>i. [0.1, 0.7, 0.7 :: real] ! i * 100) idx)"
    by (auto simp: demo_component_fields)
  have "map prob (map (\<lambda>i. \<lparr>token = [''a'', ''b'', ''c''] ! i,
                            prob = [0.1, 0.7, 0.7] ! i * 100\<rparr>) idx)
        = map (\<lambda>i. [0.1, 0.7, 0.7 :: real] ! i * 100) idx"
    by (simp add: comp_def)
  with c l s show ?thesis by (simp add: comp_def)
qed

section \<open>The metrics: errors, selected bars, heights\<close>

lemma format_2f_examples:
  "format_2f (37 / 100) = ''0.37''"
  "format_2f (1 / 2) = ''0.50''"
  by (simp_all add: format_2f_def round_half_even_def Let_def)

lemma demo_format_examples:
  "demo_format ''{:.2f}'' (37 / 100) = Inr ''0.37''"
  "demo_format ''{:.2f}'' (1 / 2) = Inr ''0.50''"
  by (simp_all add: demo_format_def format_2f_examples)

lemma demo_mixin_fields:
  "priv_ordering demo_mixin = [''bleu'', ''nll'']"
  "priv_select_metrics_elements demo_mixin = [(''bleu'', True), (''nll'', True)]"
  "priv_metrics_on_generated_text demo_mixin = demo_metrics_on_generated_text"
  "priv_metrics_on_probs demo_mixin = demo_metrics_on_probs"
  by (simp_all add: demo_mixin_def init_metrics_mixin_def create_ordering_def
        prepare_metrics_selection_frontend_def demo_metrics_on_generated_text_def
        demo_metrics_on_probs_def Let_def)








lemma metric_bar_selected:
  "metric_bar sf self g l p e name = Inr bar \<Longrightarrow>
   (bar = None) = (map_of (priv_select_metrics_elements self) name \<noteq> Some True)"
  by (auto simp: metric_bar_def split: option.splits if_splits sum.splits)

lemma metric_bars_names:
  "metric_bars sf self g l p e names = Inr (bn, ba, bh) \<Longrightarrow>
   bn = filter (\<lambda>name. map_of (priv_select_metrics_elements self) name = Some True) names
   \<and> length ba = length bn \<and> length bh = length bn"
proof (induction names arbitrary: bn ba bh)
  case Nil
  then show ?case by simp
next
  case (Cons name names)
  from Cons.prems obtain bar bn' ba' bh' where
    bar: "metric_bar sf self g l p e name = Inr bar"
    and rest: "metric_bars sf self g l p e names = Inr (bn', ba', bh')"
    and res: "(case bar of None \<Rightarrow> Inr (bn', ba', bh')
               | Some (height, annotation) \<Rightarrow>
                   Inr (name # bn', annotation # ba', height # bh'))
              = (Inr (bn, ba, bh) :: error + string list \<times> string list \<times> real list)"
    by (auto split: sum.splits prod.splits)
  note ih = Cons.IH[OF rest]
  show ?case
  proof (cases bar)
    case None
    with metric_bar_selected[OF bar] res ih show ?thesis by auto
  next
    case (Some b)
    with metric_bar_selected[OF bar] res ih show ?thesis by (cases b) auto
  qed
qed

lemma compute_piece_infos_pieces:
  "compute_piece_infos sf self l cands = Inr pis \<Longrightarrow>
   map pieceTitle pis = map fst cands \<and>
   (\<forall>piece \<in> set pis.
      barNames piece
        = filter (\<lambda>name. map_of (priv_select_metrics_elements self) name = Some True)
            (priv_ordering self)
      \<and> length (barHeights piece) = length (barNames piece)
      \<and> length (barAnnotations piece) = length (barNames piece))"
proof (induction cands arbitrary: pis)
  case Nil
  then show ?case by simp
next
  case (Cons c cands)
  obtain g p e where c: "c = (g, p, e)" by (cases c) auto
  from Cons.prems c obtain bn ba bh pis' where
    bars: "metric_bars sf self g l p e (priv_ordering self) = Inr (bn, ba, bh)"
    and rest: "compute_piece_infos sf self l cands = Inr pis'"
    and pis: "pis = \<lparr>pieceTitle = g, barHeights = bh, barAnnotations = ba, barNames = bn\<rparr> # pis'"
    by (auto split: sum.splits prod.splits)
  from metric_bars_names[OF bars] Cons.IH[OF rest] pis c show ?case by simp
qed




text \<open>
  C9: when the computation returns, every piece of the element has the names of exactly
  the selected metrics, in the order of the ordering (which \<open>__init__\<close> sets to
  \<open>create_ordering\<close>), an unselected metric having no entry, and its heights and
  annotations are as many as its names. The pieces are titled by the candidates.
\<close>

theorem pieces_hold_selected_metrics:
  assumes "compute_n_display_metrics_for_element sf self gl l pl el element = (Inr (), element')"
  shows "map pieceTitle (piece_infos element') = map fst (zip gl (zip pl el))
         \<and> (\<forall>piece \<in> set (piece_infos element').
               barNames piece
                 = filter (\<lambda>name. map_of (priv_select_metrics_elements self) name = Some True)
                     (priv_ordering self)
               \<and> length (barHeights piece) = length (barNames piece)
               \<and> length (barAnnotations piece) = length (barNames piece))
         \<and> priv_ordering (init_metrics_mixin gt pr :: 'a metrics_mixin) = create_ordering gt pr"
proof -
  from assms obtain pis where
    pis: "compute_piece_infos sf self l (zip gl (zip pl el)) = Inr pis"
    and el: "element' = set_piece_infos pis element"
    by (auto simp: compute_n_display_metrics_for_element_def split: sum.splits)
  have "piece_infos element' = pis"
    using el by (simp add: set_piece_infos_def)
  with compute_piece_infos_pieces[OF pis] show ?thesis
    by (simp add: init_metrics_mixin_def Let_def)
qed

text \<open>With \<open>bleu\<close> unselected, the piece has the one bar of \<open>nll\<close>.\<close>

theorem pieces_hold_selected_metrics_witness:
  "compute_n_display_metrics_for_element demo_format
     (demo_mixin\<lparr>priv_select_metrics_elements := [(''bleu'', False), (''nll'', True)]\<rparr>)
     [''good''] ''gold'' [0] [0] demo_element
   = (Inr (),
      \<lparr>piece_infos =
         [\<lparr>pieceTitle = ''good'', barHeights = [100],
           barAnnotations = [''0.37''], barNames = [''nll'']\<rparr>],
       bc_changed = True\<rparr>)
   \<and> list_all (\<lambda>piece. barNames piece = [''nll''] \<and> length (barHeights piece) = 1
                        \<and> length (barAnnotations piece) = 1)
        (piece_infos
          \<lparr>piece_infos =
             [\<lparr>pieceTitle = ''good'', barHeights = [100],
               barAnnotations = [''0.37''], barNames = [''nll'']\<rparr>],
           bc_changed = True\<rparr>)"
proof -
  have run: "compute_n_display_metrics_for_element demo_format
     (demo_mixin\<lparr>priv_select_metrics_elements := [(''bleu'', False), (''nll'', True)]\<rparr>)
     [''good''] ''gold'' [0] [0] demo_element
   = (Inr (),
      \<lparr>piece_infos =
         [\<lparr>pieceTitle = ''good'', barHeights = [100],
           barAnnotations = [''0.37''], barNames = [''nll'']\<rparr>],
       bc_changed = True\<rparr>)"
    by (simp add: compute_n_display_metrics_for_element_def demo_mixin_fields metric_bar_def
          demo_metrics_on_generated_text_def demo_metrics_on_probs_def bar_of_def
          demo_format_examples set_piece_infos_def demo_element_def)
  from pieces_hold_selected_metrics[OF run]
  have "\<forall>piece \<in> set (piece_infos
          \<lparr>piece_infos =
             [\<lparr>pieceTitle = ''good'', barHeights = [100],
               barAnnotations = [''0.37''], barNames = [''nll'']\<rparr>],
           bc_changed = True\<rparr>).
          barNames piece
            = filter (\<lambda>name. map_of (priv_select_metrics_elements
                (demo_mixin\<lparr>priv_select_metrics_elements := [(''bleu'', False), (''nll'', True)]\<rparr>))
                  name = Some True)
                (priv_ordering
                  (demo_mixin\<lparr>priv_select_metrics_elements := [(''bleu'', False), (''nll'', True)]\<rparr>))
          \<and> length (barHeights piece) = length (barNames piece)
          \<and> length (barAnnotations piece) = length (barNames piece)"
    by blast
  then have "list_all (\<lambda>piece. barNames piece = [''nll''] \<and> length (barHeights piece) = 1
                        \<and> length (barAnnotations piece) = 1)
        (piece_infos
          \<lparr>piece_infos =
             [\<lparr>pieceTitle = ''good'', barHeights = [100],
               barAnnotations = [''0.37''], barNames = [''nll'']\<rparr>],
           bc_changed = True\<rparr>)"
    by (simp add: demo_mixin_fields)
  with run show ?thesis by blast
qed

text \<open>
  C10, as stated: the height of a scalable metric is the raw value clamped to the
  interval from 0 to 100. The code scales the raw value by 100 first: the raw value 0.5
  gives the height 50, and clamping 0.5 gives 0.5.
\<close>

theorem bar_height_counterexample:
  "bar_of demo_format \<lparr>display_format = ''{:.2f}'', scalable = True\<rparr> (1 / 2)
     = Inr (50, ''0.50'')
   \<and> (50 :: real) \<noteq> max 0 (min 100 (1 / 2))"
  by (simp add: bar_of_def demo_format_examples)

text \<open>
  C10, amended: for every computed metric value the annotation of the bar is the raw
  value formatted with the metric's format string; the height of a non-scalable metric
  is 100; the height of a scalable metric with a raw value \<open>r \<ge> 0\<close> is
  \<open>min (100 * r) 100\<close>, which lies between 0 and 100. Nothing is stated about the
  height of a scalable metric with a negative raw value. In particular, when \<open>{:.2f}\<close>
  formats 0.37 as \<open>0.37\<close>, a non-scalable metric with that format and the raw value
  0.37 has height 100 and annotation \<open>0.37\<close>.
\<close>

theorem bar_height_and_annotation:
  "(sf (display_format md) r = Inr ann
      \<longrightarrow> (\<exists>height. bar_of sf md r = Inr (height, ann)))
   \<and> (scalable md \<and> 0 \<le> r \<and> sf (display_format md) r = Inr ann
      \<longrightarrow> bar_of sf md r = Inr (min (r * 100) 100, ann)
          \<and> 0 \<le> min (r * 100) 100 \<and> min (r * 100) 100 \<le> 100)
   \<and> (\<not> scalable md \<and> sf (display_format md) r = Inr ann
      \<longrightarrow> bar_of sf md r = Inr (100, ann))
   \<and> (sf ''{:.2f}'' (37 / 100) = Inr ''0.37''
      \<longrightarrow> bar_of sf \<lparr>display_format = ''{:.2f}'', scalable = False\<rparr> (37 / 100)
            = Inr (100, ''0.37''))"
  by (simp add: bar_of_def)

theorem bar_height_and_annotation_witness:
  "(\<exists>height. bar_of demo_format \<lparr>display_format = ''{:.2f}'', scalable = True\<rparr> (1 / 2)
       = Inr (height, ''0.50''))
   \<and> bar_of demo_format \<lparr>display_format = ''{:.2f}'', scalable = True\<rparr> (1 / 2)
     = Inr (min (1 / 2 * 100) 100, ''0.50'')
   \<and> bar_of demo_format \<lparr>display_format = ''{:.2f}'', scalable = False\<rparr> (37 / 100)
     = Inr (100, ''0.37'')"
proof -
  have a: "scalable \<lparr>display_format = ''{:.2f}'', scalable = True\<rparr> \<and> (0 :: real) \<le> 1 / 2
           \<and> demo_format (display_format \<lparr>display_format = ''{:.2f}'', scalable = True\<rparr>) (1 / 2)
               = Inr ''0.50''"
    by (simp add: demo_format_examples)
  have b: "demo_format ''{:.2f}'' (37 / 100) = Inr ''0.37''"
    by (simp add: demo_format_examples)
  note scalable_case = bar_height_and_annotation
    [where md = "\<lparr>display_format = ''{:.2f}'', scalable = True\<rparr>" and r = "1 / 2"
       and sf = demo_format and ann = "''0.50''"]
  from scalable_case a
  have 0: "\<exists>height. bar_of demo_format \<lparr>display_format = ''{:.2f}'', scalable = True\<rparr> (1 / 2)
       = Inr (height, ''0.50'')"
    by blast
  from scalable_case a
  have 1: "bar_of demo_format \<lparr>display_format = ''{:.2f}'', scalable = True\<rparr> (1 / 2)
     = Inr (min (1 / 2 * 100) 100, ''0.50'')"
    by blast
  from bar_height_and_annotation
    [where md = "\<lparr>display_format = ''{:.2f}'', scalable = False\<rparr>" and r = "37 / 100"
       and sf = demo_format and ann = "''0.37''"] b
  have 2: "bar_of demo_format \<lparr>display_format = ''{:.2f}'', scalable = False\<rparr> (37 / 100)
     = Inr (100, ''0.37'')"
    by simp
  from 0 1 2 show ?thesis by blast
qed

end
